theory Spec2Isabelle
  imports Main
begin

section \<open>Data model of \<open>src/index.ts\<close>\<close>

text \<open>
  \<^verbatim>\<open>type Entity = { id; name; domain; controlGpio; monitorGpio }\<close>.
  The configuration is obtained by \<^verbatim>\<open>JSON.parse(...) as Config\<close>, a cast that checks
  nothing, so at run time \<open>domain\<close> is whatever string the file holds: it is a
  \<open>string\<close> here and not a three-valued datatype. The field \<open>id\<close> is written \<open>id'\<close>
  (\<open>id\<close> is the identity function of HOL). The GPIO numbers are only passed on to
  the hardware layer.
\<close>

record Entity =
  id' :: string
  name :: string
  domain :: string
  controlGpio :: int
  monitorGpio :: int

record Config =
  deviceId :: string
  entities :: "Entity list"

text \<open>\<^verbatim>\<open>const TopicType = { COMMAND: "set", STATE: "state", AVAILABILITY: "availability" }\<close>\<close>

datatype TopicType = COMMAND | STATE | AVAILABILITY

fun TopicType_value :: "TopicType \<Rightarrow> string" where
  "TopicType_value COMMAND = ''set''"
| "TopicType_value STATE = ''state''"
| "TopicType_value AVAILABILITY = ''availability''"

text \<open>\<^verbatim>\<open>const StatusMessage = { ACTIVE: "ACTIVE", INACTIVE: "INACTIVE" }\<close>\<close>

definition ACTIVE :: string where
  "ACTIVE = ''ACTIVE''"

definition INACTIVE :: string where
  "INACTIVE = ''INACTIVE''"

text \<open>\<^verbatim>\<open>function getTopic(device, type) { return `jema2mqtt/${device.id}/${type}`; }\<close>\<close>

definition getTopic :: "Entity \<Rightarrow> TopicType \<Rightarrow> string" where
  "getTopic device type = ''jema2mqtt/'' @ id' device @ ''/'' @ TopicType_value type"

subsection \<open>Discovery message\<close>

text \<open>
  The object literal returned by \<open>getDiscoveryMessage\<close>, as a JSON value: an object is
  the list of its properties in the order the literal writes them.
\<close>

datatype json =
    JString string
  | JNumber int
  | JBool bool
  | JArray "json list"
  | JObject "(string \<times> json) list"

text \<open>
  What a promise can be rejected with. \<open>Error msg\<close> is \<^verbatim>\<open>new Error(msg)\<close> thrown by
  \<open>index.ts\<close> itself; \<open>TypeError\<close> is what the runtime throws when a method is called
  on \<open>undefined\<close>; \<open>Failure msg\<close> is a rejection coming out of an external
  collaborator (hardware layer, broker client, file system, environment parser).
\<close>

datatype error = Error string | TypeError | Failure string

definition unique_id :: "string \<Rightarrow> Entity \<Rightarrow> string" where
  "unique_id devId entity = ''jema2mqtt_'' @ devId @ ''_'' @ id' entity"

definition baseMessage :: "string \<Rightarrow> int \<Rightarrow> Entity \<Rightarrow> (string \<times> json) list" where
  "baseMessage devId qos entity =
    [(''unique_id'', JString (unique_id devId entity)),
     (''name'', JString (name entity)),
     (''command_topic'', JString (getTopic entity COMMAND)),
     (''state_topic'', JString (getTopic entity STATE)),
     (''availability_topic'', JString (getTopic entity AVAILABILITY)),
     (''optimistic'', JBool False),
     (''qos'', JNumber qos),
     (''retain'', JBool True),
     (''device'', JObject
        [(''identifiers'', JArray [JString (''jema2mqtt_'' @ devId)]),
         (''name'', JString (''jema2mqtt.'' @ devId)),
         (''model'', JString ''jema2mqtt''),
         (''manufacturer'', JString ''nana4rider'')]),
     (''origin'', JObject
        [(''name'', JString ''jema2mqtt''),
         (''sw_version'', JString ''1.0.0''),
         (''support_url'', JString ''https://github.com/nana4rider/jema2mqtt'')])]"

text \<open>
  \<open>getDiscoveryMessage\<close> closes over \<open>deviceId\<close> and \<open>qos\<close>; they are parameters here.
  The spread \<^verbatim>\<open>{...baseMessage, k: v, ...}\<close> appends the new properties (none of them
  is a key of \<open>baseMessage\<close>). The final \<^verbatim>\<open>throw new Error(`unknown domain: ...`)\<close> is
  the \<open>Inl\<close> branch.
\<close>

definition getDiscoveryMessage :: "string \<Rightarrow> int \<Rightarrow> Entity \<Rightarrow> error + (string \<times> json) list" where
  "getDiscoveryMessage devId qos entity =
    (if domain entity = ''lock'' then
       Inr (baseMessage devId qos entity @
         [(''payload_lock'', JString ACTIVE),
          (''payload_unlock'', JString INACTIVE),
          (''state_locked'', JString ACTIVE),
          (''state_unlocked'', JString INACTIVE)])
     else if domain entity = ''switch'' then
       Inr (baseMessage devId qos entity @
         [(''payload_on'', JString ACTIVE),
          (''payload_off'', JString INACTIVE),
          (''state_on'', JString ACTIVE),
          (''state_off'', JString INACTIVE)])
     else if domain entity = ''cover'' then
       Inr (baseMessage devId qos entity @
         [(''payload_close'', JString ACTIVE),
          (''payload_open'', JString INACTIVE),
          (''state_closed'', JString ACTIVE),
          (''state_open'', JString INACTIVE)])
     else Inl (Error (''unknown domain: '' @ domain entity)))"

text \<open>Property access \<^verbatim>\<open>obj.key\<close> on such an object.\<close>

definition getProp :: "(string \<times> json) list \<Rightarrow> string \<Rightarrow> json option" where
  "getProp obj key = map_of obj key"

section \<open>Effects\<close>

text \<open>
  Everything \<open>index.ts\<close> does to the outside is a call into a collaborator: the logger,
  the file system, the hardware layer (\<open>requestJemaAccess\<close> and the three methods of the
  object it resolves to), the broker client, timers and the process object. A run is the
  list of these calls in the order they are issued, together with how the run's promise
  settles. \<open>'j\<close> is the type of the hardware objects.
\<close>

datatype level = Info | Debug

datatype payload = Text string | Stringify json

datatype signal = SIGINT | SIGTERM

datatype 'j event =
    Log level string
  | LogError string error
  | ReadFile string
  | RequestJemaAccess int int
  | ConnectAsync string "string option" "string option"
  | SubscribeAsync "string list"
  | OnMessage
  | SetMonitorListener 'j
  | GetMonitor 'j
  | SendControl 'j
  | PublishAsync string payload bool
  | SetInterval int
  | ClearInterval
  | OnSignal signal
  | EndAsync
  | Exit int

text \<open>
  How the collaborators answer. Each field is the outcome of the call of the same name:
  \<open>Inl msg\<close> when the call throws or its promise is rejected, \<open>Inr v\<close> when it yields
  \<open>v\<close>. The \<open>env_\<close> fields are the outcomes of the \<^verbatim>\<open>env.get(NAME)...\<close> expressions
  (\<open>asIntPositive\<close> and \<open>required\<close> throw on a bad or missing variable);
  \<open>readConfig\<close> is \<^verbatim>\<open>JSON.parse(await fs.readFile("./config.json", "utf-8"))\<close>.
  The third argument of \<open>publishAsync\<close> is the \<open>retain\<close> option (absent means false).
  A world fixes the answers for one run (the startup, the handling of one message, one
  shutdown); different runs may be given different worlds.
\<close>

record 'j world =
  env_HA_DISCOVERY_PREFIX :: string
  env_QOS :: "string + int"
  readConfig :: "string + Config"
  requestJemaAccess :: "int \<Rightarrow> int \<Rightarrow> string + 'j"
  env_MQTT_BROKER :: "string + string"
  env_MQTT_USERNAME :: "string option"
  env_MQTT_PASSWORD :: "string option"
  connectAsync :: "string + unit"
  subscribeAsync :: "string list \<Rightarrow> string + unit"
  publishAsync :: "string \<Rightarrow> payload \<Rightarrow> bool \<Rightarrow> string + unit"
  getMonitor :: "'j \<Rightarrow> string + bool"
  sendControl :: "'j \<Rightarrow> string + unit"
  env_AVAILABILITY_INTERVAL :: "string + int"
  endAsync :: "string + unit"

type_synonym ('j, 'a) run = "'j event list \<times> (error + 'a)"

text \<open>Sequencing of awaited steps: a rejection skips everything after it.\<close>

definition andThen :: "('j, 'a) run \<Rightarrow> ('a \<Rightarrow> ('j, 'b) run) \<Rightarrow> ('j, 'b) run" where
  "andThen m f =
    (case m of
       (t, Inl e) \<Rightarrow> (t, Inl e)
     | (t, Inr x) \<Rightarrow> (case f x of (t', r) \<Rightarrow> (t @ t', r)))"

definition emit :: "'j event list \<Rightarrow> ('j, unit) run" where
  "emit evs = (evs, Inr ())"

definition external :: "string + 'a \<Rightarrow> error + 'a" where
  "external r = (case r of Inl msg \<Rightarrow> Inl (Failure msg) | Inr v \<Rightarrow> Inr v)"

definition call :: "'j event \<Rightarrow> string + 'a \<Rightarrow> ('j, 'a) run" where
  "call ev r = ([ev], external r)"

definition evaluate :: "error + 'a \<Rightarrow> ('j, 'a) run" where
  "evaluate r = ([], r)"

text \<open>
  \<^verbatim>\<open>Promise.all(xs.map(task))\<close>: every task is started, and the result is rejected as
  soon as one task is. The calls of the tasks are listed task by task in list order, and
  the rejection reported is that of the first rejected task in list order (the runtime
  reports the first in time). How the tasks interleave in time is not modelled: whether
  the result is rejected does not depend on it.
\<close>

fun collect :: "(error + 'a) list \<Rightarrow> error + 'a list" where
  "collect [] = Inr []"
| "collect (Inl e # rs) = Inl e"
| "collect (Inr x # rs) = (case collect rs of Inl e \<Rightarrow> Inl e | Inr xs \<Rightarrow> Inr (x # xs))"

definition promiseAll :: "('j, 'a) run list \<Rightarrow> ('j, 'a list) run" where
  "promiseAll rs = (concat (map fst rs), collect (map snd rs))"

section \<open>The hardware objects\<close>

text \<open>
  \<^verbatim>\<open>new Map(entries)\<close>: a later entry with a key already present replaces the value
  and keeps the key's place. \<^verbatim>\<open>jemas.get(k)\<close> is \<open>map_of jemas k\<close>.
\<close>

fun mapSet :: "'k \<Rightarrow> 'v \<Rightarrow> ('k \<times> 'v) list \<Rightarrow> ('k \<times> 'v) list" where
  "mapSet k v [] = [(k, v)]"
| "mapSet k v (p # ps) = (if fst p = k then (k, v) # ps else p # mapSet k v ps)"

definition newMap :: "('k \<times> 'v) list \<Rightarrow> ('k \<times> 'v) list" where
  "newMap entries = foldl (\<lambda>m (k, v). mapSet k v m) [] entries"

text \<open>
  The task of the first \<^verbatim>\<open>Promise.all\<close>:
  \<^verbatim>\<open>async ({ id: uniqueId, controlGpio, monitorGpio }) => { const jema = await requestJemaAccess(controlGpio, monitorGpio); return [uniqueId, jema]; }\<close>
\<close>

definition requestEntity :: "'j world \<Rightarrow> Entity \<Rightarrow> ('j, string \<times> 'j) run" where
  "requestEntity w e =
    andThen (call (RequestJemaAccess (controlGpio e) (monitorGpio e))
               (requestJemaAccess w (controlGpio e) (monitorGpio e)))
      (\<lambda>jema. evaluate (Inr (id' e, jema)))"

definition requestAll :: "'j world \<Rightarrow> Entity list \<Rightarrow> ('j, (string \<times> 'j) list) run" where
  "requestAll w es = promiseAll (map (requestEntity w) es)"

section \<open>Command path: \<open>handleMessage\<close>\<close>

text \<open>
  \<^verbatim>\<open>jemas.get(entity.id)!\<close> is \<open>undefined\<close> when the key is missing; the method call on it
  then throws a \<open>TypeError\<close>.
\<close>

definition handleMessage ::
  "'j world \<Rightarrow> Entity list \<Rightarrow> (string \<times> 'j) list \<Rightarrow> string \<Rightarrow> string \<Rightarrow> ('j, unit) run" where
  "handleMessage w es jemas topic message =
    (case find (\<lambda>entity. getTopic entity COMMAND = topic) es of
       None \<Rightarrow> evaluate (Inr ())
     | Some entity \<Rightarrow>
        (case map_of jemas (id' entity) of
           None \<Rightarrow> evaluate (Inl TypeError)
         | Some jema \<Rightarrow>
            andThen (call (GetMonitor jema) (getMonitor w jema)) (\<lambda>monitor.
              if (message = ACTIVE \<and> \<not> monitor) \<or> (message = INACTIVE \<and> monitor)
              then call (SendControl jema) (sendControl w jema)
              else evaluate (Inr ()))))"

text \<open>Number of control pulses among the calls of a run.\<close>

fun isPulse :: "'j event \<Rightarrow> bool" where
  "isPulse (SendControl j) = True"
| "isPulse ev = False"

definition pulses :: "'j event list \<Rightarrow> nat" where
  "pulses t = length (filter isPulse t)"

text \<open>The calls that write a log record.\<close>

fun isLog :: "'j event \<Rightarrow> bool" where
  "isLog (Log l s) = True"
| "isLog (LogError s e) = True"
| "isLog ev = False"

section \<open>Hardware-change path: \<open>publishState\<close>\<close>

definition publishState :: "'j world \<Rightarrow> Entity \<Rightarrow> bool \<Rightarrow> ('j, unit) run" where
  "publishState w entity v =
    call (PublishAsync (getTopic entity STATE) (Text (if v then ACTIVE else INACTIVE)) True)
      (publishAsync w (getTopic entity STATE) (Text (if v then ACTIVE else INACTIVE)) True)"

text \<open>
  The listener \<^verbatim>\<open>(value) => void publishState(value)\<close>: the promise is discarded, what
  remains is the calls made.
\<close>

definition monitorListener :: "'j world \<Rightarrow> Entity \<Rightarrow> bool \<Rightarrow> 'j event list" where
  "monitorListener w entity v = fst (publishState w entity v)"

section \<open>Startup: \<open>main\<close>\<close>

text \<open>
  The task \<open>main\<close> runs for each entity once the broker is connected (the body of the
  second \<^verbatim>\<open>Promise.all(entities.map(async (entity) => ...))\<close>).
  \<^verbatim>\<open>discoveryMessage.unique_id\<close> is the first property of \<open>baseMessage\<close>, written
  \<open>unique_id devId entity\<close>.
\<close>

definition startEntity ::
  "'j world \<Rightarrow> string \<Rightarrow> string \<Rightarrow> int \<Rightarrow> (string \<times> 'j) list \<Rightarrow> Entity \<Rightarrow> ('j, unit) run" where
  "startEntity w haDiscoveryPrefix devId qos jemas entity =
    (case map_of jemas (id' entity) of
       None \<Rightarrow> evaluate (Inl TypeError)
     | Some jema \<Rightarrow>
        andThen (emit [SetMonitorListener jema]) (\<lambda>_.
        andThen (call (GetMonitor jema) (getMonitor w jema)) (\<lambda>monitor.
        andThen (publishState w entity monitor) (\<lambda>_.
        andThen (evaluate (getDiscoveryMessage devId qos entity)) (\<lambda>discoveryMessage.
          call (PublishAsync
                  (haDiscoveryPrefix @ ''/'' @ domain entity @ ''/'' @ unique_id devId entity @ ''/config'')
                  (Stringify (JObject discoveryMessage)) True)
            (publishAsync w
                  (haDiscoveryPrefix @ ''/'' @ domain entity @ ''/'' @ unique_id devId entity @ ''/config'')
                  (Stringify (JObject discoveryMessage)) True))))))"

text \<open>
  \<open>publishAvailability\<close>: the publishes are all issued by the \<open>map\<close> before anything is
  awaited; \<open>publishAvailability_calls\<close> is that list of calls.
\<close>

definition publishAvailability_calls :: "Entity list \<Rightarrow> string \<Rightarrow> 'j event list" where
  "publishAvailability_calls es v =
    map (\<lambda>entity. PublishAsync (getTopic entity AVAILABILITY) (Text v) False) es"

definition publishAvailability :: "'j world \<Rightarrow> Entity list \<Rightarrow> string \<Rightarrow> ('j, unit list) run" where
  "publishAvailability w es v =
    promiseAll (map (\<lambda>entity.
      call (PublishAsync (getTopic entity AVAILABILITY) (Text v) False)
        (publishAsync w (getTopic entity AVAILABILITY) (Text v) False)) es)"

text \<open>
  The body of \<open>main\<close>, statement by statement. On success it yields what the handlers
  registered by \<open>main\<close> close over: the entity list and the map of hardware objects.
\<close>

definition mainBody :: "'j world \<Rightarrow> ('j, Entity list \<times> (string \<times> 'j) list) run" where
  "mainBody w =
    andThen (emit [Log Info ''jema2mqtt: start'']) (\<lambda>_.
    andThen (evaluate (external (env_QOS w))) (\<lambda>qos.
    andThen (call (ReadFile ''./config.json'') (readConfig w)) (\<lambda>cfg.
    andThen (requestAll w (entities cfg)) (\<lambda>entries.
    andThen (evaluate (external (env_MQTT_BROKER w))) (\<lambda>broker.
    andThen (call (ConnectAsync broker (env_MQTT_USERNAME w) (env_MQTT_PASSWORD w)) (connectAsync w)) (\<lambda>_.
    andThen (emit [Log Info ''mqtt-client: connected'']) (\<lambda>_.
    andThen (emit (map (\<lambda>entity. Log Debug (''subscribe: '' @ getTopic entity COMMAND)) (entities cfg))) (\<lambda>_.
    andThen (call (SubscribeAsync (map (\<lambda>entity. getTopic entity COMMAND) (entities cfg)))
               (subscribeAsync w (map (\<lambda>entity. getTopic entity COMMAND) (entities cfg)))) (\<lambda>_.
    andThen (emit [OnMessage]) (\<lambda>_.
    andThen (promiseAll (map (startEntity w (env_HA_DISCOVERY_PREFIX w) (deviceId cfg) qos (newMap entries))
               (entities cfg))) (\<lambda>_.
    andThen (evaluate (external (env_AVAILABILITY_INTERVAL w))) (\<lambda>interval.
    andThen (emit [SetInterval interval, OnSignal SIGINT, OnSignal SIGTERM]) (\<lambda>_.
    andThen (publishAvailability w (entities cfg) ''online'') (\<lambda>_.
    andThen (emit [Log Info ''jema2mqtt: ready'']) (\<lambda>_.
      evaluate (Inr (entities cfg, newMap entries)))))))))))))))))"

text \<open>
  The top level: \<^verbatim>\<open>try { await main() } catch (err) { logger.error(...); process.exit(1) }\<close>.
\<close>

definition main :: "'j world \<Rightarrow> 'j event list \<times> (Entity list \<times> (string \<times> 'j) list) option" where
  "main w =
    (case mainBody w of
       (t, Inl err) \<Rightarrow> (t @ [LogError ''jema2mqtt:'' err, Exit 1], None)
     | (t, Inr ready) \<Rightarrow> (t, Some ready))"

section \<open>Shutdown: \<open>shutdownHandler\<close> and the signal handlers\<close>

text \<open>
  \<open>shutdownHandler\<close> is an async function with three awaits. An execution of it runs up
  to its first await when it is called, and later from one await to the next when the
  awaited promise settles. \<open>pc\<close> names the await an execution is suspended at.
\<close>

datatype pc = AwaitOffline | AwaitEnd | AwaitJemas

datatype task = Suspended pc | Rejected error | Exited

text \<open>From the call to the first await: log, clear the timer, issue the offline publishes.\<close>

definition shutdownHandler_start :: "Entity list \<Rightarrow> 'j event list" where
  "shutdownHandler_start es =
    [Log Info ''jema2mqtt: shutdown'', ClearInterval] @ publishAvailability_calls es ''offline''"

text \<open>
  From one await to the next. The handler has no \<open>try\<close>: a rejected await rejects the
  execution, and nothing after it runs. The last await,
  \<^verbatim>\<open>await Promise.all(Array.from(jemas.values()))\<close>, is over the hardware objects
  themselves (values, not promises), so it calls nothing and always resolves.
\<close>

fun shutdownHandler_resume :: "'j world \<Rightarrow> Entity list \<Rightarrow> pc \<Rightarrow> 'j event list \<times> task" where
  "shutdownHandler_resume w es AwaitOffline =
    (case snd (publishAvailability w es ''offline'') of
       Inl err \<Rightarrow> ([], Rejected err)
     | Inr _ \<Rightarrow> ([EndAsync], Suspended AwaitEnd))"
| "shutdownHandler_resume w es AwaitEnd =
    (case external (endAsync w) of
       Inl err \<Rightarrow> ([], Rejected err)
     | Inr _ \<Rightarrow> ([Log Info ''mqtt-client: closed''], Suspended AwaitJemas))"
| "shutdownHandler_resume w es AwaitJemas = ([Exit 0], Exited)"

text \<open>
  The process after \<open>main\<close> has returned: the calls made since, the executions of
  \<open>shutdownHandler\<close> started so far, and whether \<open>process.exit\<close> has been called.
  \<^verbatim>\<open>process.on("SIGINT", () => void shutdownHandler())\<close> and the same for \<open>SIGTERM\<close>:
  a signal calls \<open>shutdownHandler\<close>. \<open>Resume i\<close> is the settling of the promise the
  \<open>i\<close>-th execution awaits. Timer ticks and broker messages are not inputs here: they
  do not touch the executions of \<open>shutdownHandler\<close>.
\<close>

record 'j process =
  trace :: "'j event list"
  handlers :: "task list"
  exited :: bool

datatype input = Signal signal | Resume nat

definition ready :: "'j process" where
  "ready = \<lparr>trace = [], handlers = [], exited = False\<rparr>"

definition step :: "'j world \<Rightarrow> Entity list \<Rightarrow> 'j process \<Rightarrow> input \<Rightarrow> 'j process" where
  "step w es p inp =
    (if exited p then p
     else case inp of
       Signal s \<Rightarrow>
         p\<lparr>trace := trace p @ shutdownHandler_start es,
           handlers := handlers p @ [Suspended AwaitOffline]\<rparr>
     | Resume i \<Rightarrow>
        (if i < length (handlers p) then
           (case handlers p ! i of
              Suspended at \<Rightarrow>
               (case shutdownHandler_resume w es at of
                  (evs, t) \<Rightarrow>
                    p\<lparr>trace := trace p @ evs,
                      handlers := (handlers p)[i := t],
                      exited := (t = Exited)\<rparr>)
            | Rejected err \<Rightarrow> p
            | Exited \<Rightarrow> p)
         else p))"

definition run :: "'j world \<Rightarrow> Entity list \<Rightarrow> 'j process \<Rightarrow> input list \<Rightarrow> 'j process" where
  "run w es p inps = foldl (step w es) p inps"

fun isSignal :: "input \<Rightarrow> bool" where
  "isSignal (Signal s) = True"
| "isSignal (Resume i) = False"

text \<open>
  The number of executions of \<open>shutdownHandler\<close> started in a list of calls: each one
  logs \<^verbatim>\<open>jema2mqtt: shutdown\<close> first, and nothing else logs that line.
\<close>

definition starts :: "'j event list \<Rightarrow> nat" where
  "starts t = length (filter (\<lambda>ev. ev = Log Info ''jema2mqtt: shutdown'') t)"

definition isOK :: "string + 'a \<Rightarrow> bool" where
  "isOK r = (case r of Inl msg \<Rightarrow> False | Inr v \<Rightarrow> True)"

text \<open>One execution of \<open>shutdownHandler\<close> on its own, from a signal to its end.\<close>

definition shutdownHandler :: "'j world \<Rightarrow> Entity list \<Rightarrow> signal \<Rightarrow> 'j process" where
  "shutdownHandler w es s = run w es ready [Signal s, Resume 0, Resume 0, Resume 0]"

section \<open>Concrete configurations\<close>

text \<open>
  A lock, a switch and a cover, and an entity whose domain is none of the three. A
  hardware object is identified by its pair of GPIO numbers here.
\<close>

definition frontDoor :: Entity where
  "frontDoor = \<lparr>id' = ''front-door'', name = ''Front door'', domain = ''lock'',
     controlGpio = 17, monitorGpio = 27\<rparr>"

definition boiler :: Entity where
  "boiler = \<lparr>id' = ''boiler'', name = ''Boiler'', domain = ''switch'',
     controlGpio = 22, monitorGpio = 23\<rparr>"

definition shutter :: Entity where
  "shutter = \<lparr>id' = ''shutter'', name = ''Shutter'', domain = ''cover'',
     controlGpio = 24, monitorGpio = 25\<rparr>"

definition lamp :: Entity where
  "lamp = \<lparr>id' = ''lamp'', name = ''Lamp'', domain = ''light'',
     controlGpio = 5, monitorGpio = 6\<rparr>"

text \<open>
  A world in which every call succeeds: the configuration file holds \<open>es\<close>, every monitor
  reads \<open>m\<close>.
\<close>

definition healthy :: "Entity list \<Rightarrow> bool \<Rightarrow> (int \<times> int) world" where
  "healthy es m =
    \<lparr>env_HA_DISCOVERY_PREFIX = ''homeassistant'',
     env_QOS = Inr 1,
     readConfig = Inr \<lparr>deviceId = ''dev'', entities = es\<rparr>,
     requestJemaAccess = (\<lambda>c g. Inr (c, g)),
     env_MQTT_BROKER = Inr ''mqtt://broker'',
     env_MQTT_USERNAME = None,
     env_MQTT_PASSWORD = None,
     connectAsync = Inr (),
     subscribeAsync = (\<lambda>ts. Inr ()),
     publishAsync = (\<lambda>t p r. Inr ()),
     getMonitor = (\<lambda>j. Inr m),
     sendControl = (\<lambda>j. Inr ()),
     env_AVAILABILITY_INTERVAL = Inr 10000,
     endAsync = Inr ()\<rparr>"

text \<open>The same world with failing hardware reads, and with failing publishes.\<close>

definition readFails :: "Entity list \<Rightarrow> (int \<times> int) world" where
  "readFails es = (healthy es False)\<lparr>getMonitor := (\<lambda>j. Inl ''read failed'')\<rparr>"

definition publishFails :: "Entity list \<Rightarrow> (int \<times> int) world" where
  "publishFails es = (healthy es False)\<lparr>publishAsync := (\<lambda>t p r. Inl ''not connected'')\<rparr>"

section \<open>Topics\<close>

text \<open>
  The three topic types end in three different characters, so equal topics have the same
  type, and then the same id, whatever characters the ids hold.
\<close>

lemma getTopic_inj:
  assumes "getTopic e1 t1 = getTopic e2 t2"
  shows "id' e1 = id' e2 \<and> t1 = t2"
proof -
  from assms have "last (getTopic e1 t1) = last (getTopic e2 t2)"
    by simp
  then have ty: "t1 = t2"
    by (cases t1; cases t2) (simp_all add: getTopic_def)
  from assms have "(id' e1 @ ''/'') @ TopicType_value t1 = (id' e2 @ ''/'') @ TopicType_value t1"
    unfolding getTopic_def ty by simp
  then have "id' e1 @ ''/'' = id' e2 @ ''/''"
    by (simp only: append_same_eq)
  then show ?thesis
    using ty by simp
qed

text \<open>
  C4. \<open>getTopic\<close> is a function of the entity's id and the topic type, and two entities
  with different ids never get the same topic, for any two topic types.
\<close>

theorem getTopic_collision_free:
  "id' e1 \<noteq> id' e2 \<Longrightarrow> getTopic e1 t1 \<noteq> getTopic e2 t2"
  using getTopic_inj by blast

theorem getTopic_collision_free_witness:
  "id' frontDoor \<noteq> id' boiler \<and> getTopic frontDoor COMMAND \<noteq> getTopic boiler STATE"
  using getTopic_collision_free [of frontDoor boiler COMMAND STATE]
  by (simp add: frontDoor_def boiler_def)

section \<open>Discovery message\<close>

text \<open>
  C5. The discovery message of a lock has \<open>payload_lock = ACTIVE\<close> and
  \<open>payload_unlock = INACTIVE\<close>; of a switch, \<open>payload_on = ACTIVE\<close> and
  \<open>payload_off = INACTIVE\<close>; of a cover, \<open>payload_close = ACTIVE\<close> and
  \<open>payload_open = INACTIVE\<close>.
\<close>

theorem getDiscoveryMessage_payloads:
  "(domain entity = ''lock'' \<longrightarrow>
      (\<exists>m. getDiscoveryMessage devId qos entity = Inr m
        \<and> getProp m ''payload_lock'' = Some (JString ''ACTIVE'')
        \<and> getProp m ''payload_unlock'' = Some (JString ''INACTIVE'')))
   \<and> (domain entity = ''switch'' \<longrightarrow>
      (\<exists>m. getDiscoveryMessage devId qos entity = Inr m
        \<and> getProp m ''payload_on'' = Some (JString ''ACTIVE'')
        \<and> getProp m ''payload_off'' = Some (JString ''INACTIVE'')))
   \<and> (domain entity = ''cover'' \<longrightarrow>
      (\<exists>m. getDiscoveryMessage devId qos entity = Inr m
        \<and> getProp m ''payload_close'' = Some (JString ''ACTIVE'')
        \<and> getProp m ''payload_open'' = Some (JString ''INACTIVE'')))"
  by (simp add: getDiscoveryMessage_def getProp_def baseMessage_def ACTIVE_def INACTIVE_def)

theorem getDiscoveryMessage_payloads_witness:
  "domain frontDoor = ''lock''
   \<and> (\<exists>m. getDiscoveryMessage ''dev'' 1 frontDoor = Inr m
        \<and> getProp m ''payload_lock'' = Some (JString ''ACTIVE'')
        \<and> getProp m ''payload_unlock'' = Some (JString ''INACTIVE''))
   \<and> domain boiler = ''switch''
   \<and> (\<exists>m. getDiscoveryMessage ''dev'' 1 boiler = Inr m
        \<and> getProp m ''payload_on'' = Some (JString ''ACTIVE'')
        \<and> getProp m ''payload_off'' = Some (JString ''INACTIVE''))
   \<and> domain shutter = ''cover''
   \<and> (\<exists>m. getDiscoveryMessage ''dev'' 1 shutter = Inr m
        \<and> getProp m ''payload_close'' = Some (JString ''ACTIVE'')
        \<and> getProp m ''payload_open'' = Some (JString ''INACTIVE''))"
proof -
  have l: "domain frontDoor = ''lock''" and s: "domain boiler = ''switch''"
    and c: "domain shutter = ''cover''"
    by (simp_all add: frontDoor_def boiler_def shutter_def)
  from getDiscoveryMessage_payloads [of frontDoor "''dev''" 1]
    getDiscoveryMessage_payloads [of boiler "''dev''" 1]
    getDiscoveryMessage_payloads [of shutter "''dev''" 1] l s c
  show ?thesis by blast
qed

section \<open>Command path\<close>

lemma find_command:
  assumes "entity \<in> set es"
  shows "\<exists>e. find (\<lambda>e. getTopic e COMMAND = getTopic entity COMMAND) es = Some e
           \<and> e \<in> set es \<and> id' e = id' entity"
proof -
  from assms obtain e where f: "find (\<lambda>e. getTopic e COMMAND = getTopic entity COMMAND) es = Some e"
    by (cases "find (\<lambda>e. getTopic e COMMAND = getTopic entity COMMAND) es")
       (auto simp: find_None_iff)
  then have "getTopic e COMMAND = getTopic entity COMMAND" and "e \<in> set es"
    by (auto simp: find_Some_iff)
  with f show ?thesis
    using getTopic_inj by blast
qed

lemma handleMessage_found:
  assumes "entity \<in> set es" and "map_of jemas (id' entity) = Some jema"
  shows "handleMessage w es jemas (getTopic entity COMMAND) message =
    andThen (call (GetMonitor jema) (getMonitor w jema)) (\<lambda>monitor.
      if (message = ACTIVE \<and> \<not> monitor) \<or> (message = INACTIVE \<and> monitor)
      then call (SendControl jema) (sendControl w jema)
      else evaluate (Inr ()))"
proof -
  from find_command [OF assms(1)] obtain e where
    "find (\<lambda>e. getTopic e COMMAND = getTopic entity COMMAND) es = Some e" and "id' e = id' entity"
    by blast
  then show ?thesis
    using assms(2) by (simp add: handleMessage_def)
qed

text \<open>
  C1. A command on the command topic of a configured entity whose hardware object is in
  the map, with the monitor read succeeding: the handler reads the monitor once and then
  issues exactly one control pulse when the message is \<open>ACTIVE\<close> and the monitor reads
  false, or the message is \<open>INACTIVE\<close> and the monitor reads true; otherwise (the
  commanded state is the monitored one) it issues no pulse.
\<close>

theorem handleMessage_pulse:
  assumes "entity \<in> set es"
    and "map_of jemas (id' entity) = Some jema"
    and "getMonitor w jema = Inr monitor"
  shows "fst (handleMessage w es jemas (getTopic entity COMMAND) message) =
           GetMonitor jema #
             (if (message = ''ACTIVE'' \<and> \<not> monitor) \<or> (message = ''INACTIVE'' \<and> monitor)
              then [SendControl jema] else [])
         \<and> pulses (fst (handleMessage w es jemas (getTopic entity COMMAND) message)) =
             (if (message = ''ACTIVE'' \<and> \<not> monitor) \<or> (message = ''INACTIVE'' \<and> monitor)
              then 1 else 0)"
  using assms(3)
  by (simp add: handleMessage_found [OF assms(1,2)] andThen_def call_def external_def
      evaluate_def pulses_def ACTIVE_def INACTIVE_def)

theorem handleMessage_pulse_witness:
  "frontDoor \<in> set [frontDoor, boiler]
   \<and> map_of [(''front-door'', (17::int, 27::int)), (''boiler'', (22, 23))] (id' frontDoor) = Some (17, 27)
   \<and> getMonitor (healthy [frontDoor, boiler] False) (17, 27) = Inr False
   \<and> pulses (fst (handleMessage (healthy [frontDoor, boiler] False) [frontDoor, boiler]
        [(''front-door'', (17, 27)), (''boiler'', (22, 23))] (getTopic frontDoor COMMAND) ''ACTIVE'')) = 1"
proof -
  have h1: "frontDoor \<in> set [frontDoor, boiler]"
    by simp
  have h2: "map_of [(''front-door'', (17::int, 27::int)), (''boiler'', (22, 23))] (id' frontDoor) = Some (17, 27)"
    by (simp add: frontDoor_def)
  have h3: "getMonitor (healthy [frontDoor, boiler] False) (17, 27) = Inr False"
    by (simp add: healthy_def)
  from handleMessage_pulse [OF h1 h2 h3, of "''ACTIVE''", THEN conjunct2]
  have "pulses (fst (handleMessage (healthy [frontDoor, boiler] False) [frontDoor, boiler]
        [(''front-door'', (17, 27)), (''boiler'', (22, 23))] (getTopic frontDoor COMMAND) ''ACTIVE'')) = 1"
    by simp
  with h1 h2 h3 show ?thesis
    by blast
qed

text \<open>
  C2, as stated, fails: the monitor is read before the payload is looked at, so a message
  that is neither \<open>ACTIVE\<close> nor \<open>INACTIVE\<close> still reads the hardware, and when that
  read fails the handler's promise is rejected.
\<close>

theorem unknown_payload_counterexample:
  "''bogus'' \<noteq> ACTIVE \<and> ''bogus'' \<noteq> INACTIVE
   \<and> handleMessage (readFails [frontDoor]) [frontDoor] [(''front-door'', (17, 27))]
        (getTopic frontDoor COMMAND) ''bogus''
       = ([GetMonitor (17, 27)], Inl (Failure ''read failed''))"
  by (simp add: handleMessage_def frontDoor_def getTopic_def readFails_def healthy_def
      andThen_def call_def external_def ACTIVE_def INACTIVE_def)

text \<open>
  C2, amended. A message on a configured entity's command topic that is neither
  \<open>ACTIVE\<close> nor \<open>INACTIVE\<close> issues no control pulse; the handler still reads the
  monitor once, and its promise is rejected exactly when that read fails.
\<close>

theorem unknown_payload:
  assumes "entity \<in> set es"
    and "map_of jemas (id' entity) = Some jema"
    and "message \<noteq> ''ACTIVE''" and "message \<noteq> ''INACTIVE''"
  shows "handleMessage w es jemas (getTopic entity COMMAND) message =
           ([GetMonitor jema],
            case getMonitor w jema of Inl msg \<Rightarrow> Inl (Failure msg) | Inr monitor \<Rightarrow> Inr ())
         \<and> pulses (fst (handleMessage w es jemas (getTopic entity COMMAND) message)) = 0"
  using assms(3,4)
  by (simp add: handleMessage_found [OF assms(1,2)] andThen_def call_def external_def
      evaluate_def pulses_def ACTIVE_def INACTIVE_def split: sum.splits)

theorem unknown_payload_witness:
  "frontDoor \<in> set [frontDoor]
   \<and> map_of [(''front-door'', (17::int, 27::int))] (id' frontDoor) = Some (17, 27)
   \<and> ''bogus'' \<noteq> ''ACTIVE'' \<and> ''bogus'' \<noteq> ''INACTIVE''
   \<and> handleMessage (healthy [frontDoor] True) [frontDoor] [(''front-door'', (17, 27))]
        (getTopic frontDoor COMMAND) ''bogus'' = ([GetMonitor (17, 27)], Inr ())"
proof -
  have h1: "frontDoor \<in> set [frontDoor]"
    by simp
  have h2: "map_of [(''front-door'', (17::int, 27::int))] (id' frontDoor) = Some (17, 27)"
    by (simp add: frontDoor_def)
  have h3: "''bogus'' \<noteq> ''ACTIVE''" and h4: "''bogus'' \<noteq> ''INACTIVE''"
    by simp_all
  have "getMonitor (healthy [frontDoor] True) (17, 27) = Inr True"
    by (simp add: healthy_def)
  with unknown_payload [OF h1 h2 h3 h4, of "healthy [frontDoor] True"]
  have "handleMessage (healthy [frontDoor] True) [frontDoor] [(''front-door'', (17, 27))]
        (getTopic frontDoor COMMAND) ''bogus'' = ([GetMonitor (17, 27)], Inr ())"
    by simp
  with h1 h2 h3 h4 show ?thesis
    by blast
qed

text \<open>
  C9, as stated, fails: \<open>handleMessage\<close> calls no logger, and the callback discards its
  promise (\<^verbatim>\<open>void handleMessage(...)\<close>) without a catch. A failed read leaves a rejected
  promise and no log record.
\<close>

theorem failed_read_counterexample:
  "filter isLog (fst (handleMessage (readFails [frontDoor, boiler]) [frontDoor, boiler]
       [(''front-door'', (17, 27)), (''boiler'', (22, 23))] (getTopic boiler COMMAND) ''ACTIVE'')) = []
   \<and> snd (handleMessage (readFails [frontDoor, boiler]) [frontDoor, boiler]
       [(''front-door'', (17, 27)), (''boiler'', (22, 23))] (getTopic boiler COMMAND) ''ACTIVE'')
       = Inl (Failure ''read failed'')"
  by (simp add: handleMessage_def frontDoor_def boiler_def getTopic_def readFails_def healthy_def
      andThen_def call_def external_def ACTIVE_def INACTIVE_def)

text \<open>
  C9, amended. While handling a command for a configured entity, the handler writes no
  log record and calls nothing but that entity's hardware object. A failed monitor read
  rejects the handler's promise with that failure and no pulse is issued; a failed pulse
  rejects it as well. What becomes of the rejected promise is left to the runtime.
\<close>

theorem handleMessage_failure:
  assumes "entity \<in> set es"
    and "map_of jemas (id' entity) = Some jema"
  shows "filter isLog (fst (handleMessage w es jemas (getTopic entity COMMAND) message)) = []
    \<and> set (fst (handleMessage w es jemas (getTopic entity COMMAND) message))
          \<subseteq> {GetMonitor jema, SendControl jema}
    \<and> (case getMonitor w jema of
          Inl msg \<Rightarrow>
            handleMessage w es jemas (getTopic entity COMMAND) message
              = ([GetMonitor jema], Inl (Failure msg))
        | Inr monitor \<Rightarrow>
            if (message = ''ACTIVE'' \<and> \<not> monitor) \<or> (message = ''INACTIVE'' \<and> monitor)
            then handleMessage w es jemas (getTopic entity COMMAND) message
              = ([GetMonitor jema, SendControl jema],
                 case sendControl w jema of Inl msg \<Rightarrow> Inl (Failure msg) | Inr u \<Rightarrow> Inr ())
            else handleMessage w es jemas (getTopic entity COMMAND) message
              = ([GetMonitor jema], Inr ()))"
  by (simp add: handleMessage_found [OF assms] andThen_def call_def external_def
      evaluate_def ACTIVE_def INACTIVE_def split: sum.splits)

theorem handleMessage_failure_witness:
  "boiler \<in> set [frontDoor, boiler]
   \<and> map_of [(''front-door'', (17::int, 27::int)), (''boiler'', (22, 23))] (id' boiler) = Some (22, 23)
   \<and> handleMessage (readFails [frontDoor, boiler]) [frontDoor, boiler]
        [(''front-door'', (17, 27)), (''boiler'', (22, 23))] (getTopic boiler COMMAND) ''INACTIVE''
       = ([GetMonitor (22, 23)], Inl (Failure ''read failed''))"
proof -
  have h1: "boiler \<in> set [frontDoor, boiler]"
    by simp
  have h2: "map_of [(''front-door'', (17::int, 27::int)), (''boiler'', (22, 23))] (id' boiler) = Some (22, 23)"
    by (simp add: boiler_def)
  have "getMonitor (readFails [frontDoor, boiler]) (22, 23) = Inl ''read failed''"
    by (simp add: readFails_def)
  with handleMessage_failure [OF h1 h2, of "readFails [frontDoor, boiler]" "''INACTIVE''",
      THEN conjunct2, THEN conjunct2]
  have "handleMessage (readFails [frontDoor, boiler]) [frontDoor, boiler]
        [(''front-door'', (17, 27)), (''boiler'', (22, 23))] (getTopic boiler COMMAND) ''INACTIVE''
       = ([GetMonitor (22, 23)], Inl (Failure ''read failed''))"
    by simp
  with h1 h2 show ?thesis
    by blast
qed

section \<open>Hardware-change path\<close>

text \<open>
  C3. A monitor-change notification with value \<open>v\<close> makes exactly one publish: to the
  entity's state topic, with the retain flag set, carrying \<open>ACTIVE\<close> when \<open>v\<close> is true
  and \<open>INACTIVE\<close> when it is false. The entity is arbitrary, so this holds for every
  domain.
\<close>

theorem monitorListener_publish:
  "monitorListener w entity v =
     [PublishAsync (getTopic entity STATE) (Text (if v then ''ACTIVE'' else ''INACTIVE'')) True]"
  by (simp add: monitorListener_def publishState_def call_def ACTIVE_def INACTIVE_def)

section \<open>Sequencing and \<open>Promise.all\<close>\<close>

lemma andThen_InrE:
  assumes "andThen m f = (t, Inr y)"
  obtains t1 x t2 where "m = (t1, Inr x)" and "f x = (t2, Inr y)" and "t = t1 @ t2"
  using assms by (auto simp: andThen_def split: prod.splits sum.splits)

lemma andThen_ErrorE:
  assumes "andThen m f = (t, Inl (Error s))"
    and "\<And>t' s'. m \<noteq> (t', Inl (Error s'))"
  obtains t1 x t2 where "m = (t1, Inr x)" and "f x = (t2, Inl (Error s))" and "t = t1 @ t2"
  using assms by (auto simp: andThen_def split: prod.splits sum.splits)

lemma collect_Inr:
  "collect rs = Inr xs \<Longrightarrow> rs = map Inr xs"
  by (induction rs arbitrary: xs rule: collect.induct) (auto split: sum.splits)

lemma collect_no_Error:
  "collect rs = Inl err \<Longrightarrow> Inl err \<in> set rs"
  by (induction rs rule: collect.induct) (auto split: sum.splits)

lemma promiseAll_Inr:
  "promiseAll rs = (t, Inr xs) \<Longrightarrow> map snd rs = map Inr xs"
  by (simp add: promiseAll_def collect_Inr)

lemma promiseAll_Inl:
  "promiseAll rs = (t, Inl err) \<Longrightarrow> Inl err \<in> set (map snd rs)"
  by (simp add: promiseAll_def collect_no_Error del: set_map)

section \<open>The map of hardware objects\<close>

lemma requestEntity_key:
  "snd (requestEntity w e) = Inr x \<Longrightarrow> fst x = id' e"
  by (auto simp: requestEntity_def andThen_def call_def evaluate_def external_def split: sum.splits)

lemma requestEntity_no_Error:
  "snd (requestEntity w e) \<noteq> Inl (Error s)"
  by (auto simp: requestEntity_def andThen_def call_def evaluate_def external_def split: sum.splits)

lemma requestAll_keys:
  assumes "requestAll w es = (t, Inr entries)"
  shows "map fst entries = map id' es"
proof -
  from assms have "map snd (map (requestEntity w) es) = map Inr entries"
    unfolding requestAll_def by (rule promiseAll_Inr)
  then show ?thesis
  proof (induction es arbitrary: entries)
    case Nil
    then show ?case by simp
  next
    case (Cons e es)
    then show ?case
      by (cases entries) (auto dest: requestEntity_key)
  qed
qed

lemma requestAll_no_Error:
  "requestAll w es \<noteq> (t, Inl (Error s))"
proof
  assume "requestAll w es = (t, Inl (Error s))"
  then have "Inl (Error s) \<in> set (map snd (map (requestEntity w) es))"
    unfolding requestAll_def by (rule promiseAll_Inl)
  then show False
    using requestEntity_no_Error [of w _ s] by (auto dest: sym)
qed

lemma map_of_mapSet:
  "map_of (mapSet k v m) = (map_of m)(k \<mapsto> v)"
  by (induction m) auto

lemma dom_newMap_aux:
  "dom (map_of (foldl (\<lambda>m (k, v). mapSet k v m) m0 entries)) = dom (map_of m0) \<union> fst ` set entries"
  by (induction entries arbitrary: m0) (auto simp: map_of_mapSet split: prod.splits)

lemma dom_newMap:
  "dom (map_of (newMap entries)) = set (map fst entries)"
  by (simp add: newMap_def dom_newMap_aux)

lemma mainBody_ready:
  assumes "mainBody w = (t, Inr (es, jemas))"
  obtains cfg entries qos t1 t2 us where
    "readConfig w = Inr cfg" and "es = entities cfg" and "jemas = newMap entries"
    and "requestAll w es = (t1, Inr entries)"
    and "promiseAll (map (startEntity w (env_HA_DISCOVERY_PREFIX w) (deviceId cfg) qos jemas) es)
           = (t2, Inr us)"
  using assms unfolding mainBody_def
  by (elim andThen_InrE) (auto simp: call_def evaluate_def emit_def external_def split: sum.splits)

lemma requestAll_bindings:
  assumes "requestAll w es = (t, Inr entries)" and "entity \<in> set es"
  shows "\<exists>jema. map_of (newMap entries) (id' entity) = Some jema"
proof -
  from assms(2) have "id' entity \<in> set (map id' es)"
    by simp
  then have "id' entity \<in> dom (map_of (newMap entries))"
    by (simp only: dom_newMap requestAll_keys [OF assms(1)])
  then show ?thesis
    by blast
qed

text \<open>
  C10. A message whose topic is no configured entity's command topic makes the handler
  return at once: no hardware read, no pulse, no error. And once the hardware objects of
  the entity list have all been acquired, the map built from them has an object for the
  id of every entity the handler can find in that same list, so the lookup
  \<^verbatim>\<open>jemas.get(entity.id)!\<close> never yields \<open>undefined\<close> and the handler never fails with a
  \<open>TypeError\<close>. This needs nothing of the rest of the startup: it holds as soon as the
  map exists.
\<close>

theorem handleMessage_lookup:
  "((\<forall>entity \<in> set es. getTopic entity COMMAND \<noteq> topic) \<longrightarrow>
      handleMessage w es jemas topic message = ([], Inr ()))
   \<and> (requestAll w' es' = (t, Inr entries)
        \<and> find (\<lambda>entity. getTopic entity COMMAND = topic') es' = Some entity \<longrightarrow>
      (\<exists>jema. map_of (newMap entries) (id' entity) = Some jema)
      \<and> snd (handleMessage w es' (newMap entries) topic' message) \<noteq> Inl TypeError)"
proof (intro conjI impI)
  assume "\<forall>entity \<in> set es. getTopic entity COMMAND \<noteq> topic"
  then have "find (\<lambda>entity. getTopic entity COMMAND = topic) es = None"
    by (simp add: find_None_iff)
  then show "handleMessage w es jemas topic message = ([], Inr ())"
    by (simp add: handleMessage_def evaluate_def)
next
  assume a: "requestAll w' es' = (t, Inr entries)
    \<and> find (\<lambda>entity. getTopic entity COMMAND = topic') es' = Some entity"
  then have "entity \<in> set es'"
    by (auto simp: find_Some_iff)
  with a obtain jema where j: "map_of (newMap entries) (id' entity) = Some jema"
    using requestAll_bindings by blast
  then show "\<exists>jema. map_of (newMap entries) (id' entity) = Some jema"
    by blast
  from a j show "snd (handleMessage w es' (newMap entries) topic' message) \<noteq> Inl TypeError"
    by (auto simp: handleMessage_def andThen_def call_def external_def evaluate_def
        split: sum.splits)
qed

theorem handleMessage_lookup_witness:
  "getTopic frontDoor COMMAND \<noteq> ''jema2mqtt/boiler/state''
   \<and> getTopic boiler COMMAND \<noteq> ''jema2mqtt/boiler/state''
   \<and> handleMessage (healthy [frontDoor, boiler] False) [frontDoor, boiler] []
         ''jema2mqtt/boiler/state'' ''ACTIVE'' = ([], Inr ())
   \<and> requestAll (healthy [frontDoor, boiler] False) [frontDoor, boiler]
         = ([RequestJemaAccess 17 27, RequestJemaAccess 22 23],
            Inr [(''front-door'', (17, 27)), (''boiler'', (22, 23))])
   \<and> find (\<lambda>entity. getTopic entity COMMAND = ''jema2mqtt/boiler/set'') [frontDoor, boiler]
         = Some boiler
   \<and> (\<exists>jema. map_of (newMap [(''front-door'', (17::int, 27::int)), (''boiler'', (22, 23))])
         (id' boiler) = Some jema)
   \<and> snd (handleMessage (readFails [frontDoor, boiler]) [frontDoor, boiler]
         (newMap [(''front-door'', (17, 27)), (''boiler'', (22, 23))])
         ''jema2mqtt/boiler/set'' ''ACTIVE'') \<noteq> Inl TypeError"
proof -
  have h1: "\<forall>entity \<in> set [frontDoor, boiler]. getTopic entity COMMAND \<noteq> ''jema2mqtt/boiler/state''"
    by (simp add: getTopic_def frontDoor_def boiler_def)
  have h2: "requestAll (healthy [frontDoor, boiler] False) [frontDoor, boiler]
         = ([RequestJemaAccess 17 27, RequestJemaAccess 22 23],
            Inr [(''front-door'', (17, 27)), (''boiler'', (22, 23))])"
    by (simp add: requestAll_def requestEntity_def promiseAll_def andThen_def call_def
        evaluate_def external_def healthy_def frontDoor_def boiler_def)
  have h3: "find (\<lambda>entity. getTopic entity COMMAND = ''jema2mqtt/boiler/set'') [frontDoor, boiler]
         = Some boiler"
    by (simp add: getTopic_def frontDoor_def boiler_def)
  note inst = handleMessage_lookup [where es = "[frontDoor, boiler]"
      and topic = "''jema2mqtt/boiler/state''" and w = "healthy [frontDoor, boiler] False"
      and jemas = "[]" and message = "''ACTIVE''"]
  note inst' = handleMessage_lookup [where w' = "healthy [frontDoor, boiler] False"
      and es' = "[frontDoor, boiler]"
      and t = "[RequestJemaAccess 17 27, RequestJemaAccess 22 23]"
      and entries = "[(''front-door'', (17, 27)), (''boiler'', (22, 23))]"
      and topic' = "''jema2mqtt/boiler/set''" and entity = boiler
      and w = "readFails [frontDoor, boiler]" and message = "''ACTIVE''"]
  from inst h1 have c1: "handleMessage (healthy [frontDoor, boiler] False) [frontDoor, boiler] []
         ''jema2mqtt/boiler/state'' ''ACTIVE'' = ([], Inr ())"
    by blast
  from inst' h2 h3 have c2: "(\<exists>jema. map_of (newMap [(''front-door'', (17::int, 27::int)), (''boiler'', (22, 23))])
         (id' boiler) = Some jema)
     \<and> snd (handleMessage (readFails [frontDoor, boiler]) [frontDoor, boiler]
         (newMap [(''front-door'', (17, 27)), (''boiler'', (22, 23))])
         ''jema2mqtt/boiler/set'' ''ACTIVE'') \<noteq> Inl TypeError"
    by blast
  from h1 h2 h3 c1 c2 show ?thesis
    by simp
qed

section \<open>Startup\<close>

lemma startEntity_unknown:
  assumes "domain entity \<notin> {''lock'', ''switch'', ''cover''}"
  shows "\<exists>err. snd (startEntity w p d q jemas entity) = Inl err"
  using assms
  by (auto simp: startEntity_def getDiscoveryMessage_def andThen_def emit_def call_def
      external_def evaluate_def publishState_def split: option.splits sum.splits)

lemma mainBody_fails:
  assumes "readConfig w = Inr cfg" and "entity \<in> set (entities cfg)"
    and "domain entity \<notin> {''lock'', ''switch'', ''cover''}"
  shows "\<exists>t err. mainBody w = (t, Inl err)"
proof (rule ccontr)
  assume "\<not> (\<exists>t err. mainBody w = (t, Inl err))"
  then obtain t es jemas where "mainBody w = (t, Inr (es, jemas))"
    by (metis old.sum.exhaust surj_pair)
  then obtain cfg' qos t2 us where c: "readConfig w = Inr cfg'" and e: "es = entities cfg'"
    and p: "promiseAll (map (startEntity w (env_HA_DISCOVERY_PREFIX w) (deviceId cfg') qos jemas) es)
           = (t2, Inr us)"
    by (rule mainBody_ready)
  from c e assms(1,2) have "entity \<in> set es"
    by simp
  then have "snd (startEntity w (env_HA_DISCOVERY_PREFIX w) (deviceId cfg') qos jemas entity)
      \<in> set (map snd (map (startEntity w (env_HA_DISCOVERY_PREFIX w) (deviceId cfg') qos jemas) es))"
    by simp
  then have "snd (startEntity w (env_HA_DISCOVERY_PREFIX w) (deviceId cfg') qos jemas entity)
      \<in> set (map Inr us)"
    by (simp only: promiseAll_Inr [OF p])
  moreover from startEntity_unknown [OF assms(3)] obtain err where
    "snd (startEntity w (env_HA_DISCOVERY_PREFIX w) (deviceId cfg') qos jemas entity) = Inl err"
    by blast
  ultimately show False
    by auto
qed

lemma mainBody_Error_connected:
  assumes "mainBody w = (t, Inl (Error s))"
  shows "\<exists>b u p. ConnectAsync b u p \<in> set t"
  using assms unfolding mainBody_def
  apply -
  apply (erule andThen_ErrorE, simp add: emit_def)
  apply (erule andThen_ErrorE, simp add: evaluate_def external_def split: sum.splits)
  apply (erule andThen_ErrorE, simp add: call_def external_def split: sum.splits)
  apply (erule andThen_ErrorE, rule requestAll_no_Error)
  apply (erule andThen_ErrorE, simp add: evaluate_def external_def split: sum.splits)
  apply (erule andThen_ErrorE, simp add: call_def external_def split: sum.splits)
  apply (auto simp: call_def)
  done

text \<open>
  C6, as stated, fails: the domain is looked at only by \<open>getDiscoveryMessage\<close>, which
  \<open>main\<close> calls for an entity after it has connected to the broker, subscribed and
  published the entity's state. With one entity of domain \<open>light\<close> and every call
  succeeding, the error comes after all of that.
\<close>

theorem unknown_domain_counterexample:
  "domain lamp \<notin> {''lock'', ''switch'', ''cover''}
   \<and> main (healthy [lamp] False) =
      ([Log Info ''jema2mqtt: start'',
        ReadFile ''./config.json'',
        RequestJemaAccess 5 6,
        ConnectAsync ''mqtt://broker'' None None,
        Log Info ''mqtt-client: connected'',
        Log Debug ''subscribe: jema2mqtt/lamp/set'',
        SubscribeAsync [''jema2mqtt/lamp/set''],
        OnMessage,
        SetMonitorListener (5, 6),
        GetMonitor (5, 6),
        PublishAsync ''jema2mqtt/lamp/state'' (Text ''INACTIVE'') True,
        LogError ''jema2mqtt:'' (Error ''unknown domain: light''),
        Exit 1], None)"
  by (simp add: main_def mainBody_def healthy_def andThen_def emit_def evaluate_def call_def
      external_def requestAll_def requestEntity_def promiseAll_def newMap_def startEntity_def
      publishState_def getDiscoveryMessage_def getTopic_def INACTIVE_def lamp_def)

text \<open>
  C6, amended. If a configured entity has a domain outside \<open>lock\<close>, \<open>switch\<close>,
  \<open>cover\<close>, startup fails: the error is logged and the process exits with code 1. The
  error thrown for the domain is a plain \<open>Error\<close>, and whenever an \<open>Error\<close> is what
  startup fails with, the broker connection has already been made.
\<close>

theorem main_unknown_domain:
  assumes "readConfig w = Inr cfg" and "entity \<in> set (entities cfg)"
    and "domain entity \<notin> {''lock'', ''switch'', ''cover''}"
  shows "\<exists>t err. main w = (t @ [LogError ''jema2mqtt:'' err, Exit 1], None)
           \<and> (\<forall>s. err = Error s \<longrightarrow> (\<exists>b u p. ConnectAsync b u p \<in> set t))"
proof -
  from mainBody_fails [OF assms] obtain t err where m: "mainBody w = (t, Inl err)"
    by blast
  then have "main w = (t @ [LogError ''jema2mqtt:'' err, Exit 1], None)"
    by (simp add: main_def)
  moreover have "\<forall>s. err = Error s \<longrightarrow> (\<exists>b u p. ConnectAsync b u p \<in> set t)"
    using m mainBody_Error_connected by blast
  ultimately show ?thesis
    by blast
qed

theorem main_unknown_domain_witness:
  "readConfig (healthy [frontDoor, lamp] True) = Inr \<lparr>deviceId = ''dev'', entities = [frontDoor, lamp]\<rparr>
   \<and> lamp \<in> set (entities \<lparr>deviceId = ''dev'', entities = [frontDoor, lamp]\<rparr>)
   \<and> domain lamp \<notin> {''lock'', ''switch'', ''cover''}
   \<and> (\<exists>t err. main (healthy [frontDoor, lamp] True) = (t @ [LogError ''jema2mqtt:'' err, Exit 1], None)
           \<and> (\<forall>s. err = Error s \<longrightarrow> (\<exists>b u p. ConnectAsync b u p \<in> set t)))"
proof -
  have h1: "readConfig (healthy [frontDoor, lamp] True)
      = Inr \<lparr>deviceId = ''dev'', entities = [frontDoor, lamp]\<rparr>"
    by (simp add: healthy_def)
  have h2: "lamp \<in> set (entities \<lparr>deviceId = ''dev'', entities = [frontDoor, lamp]\<rparr>)"
    by simp
  have h3: "domain lamp \<notin> {''lock'', ''switch'', ''cover''}"
    by (simp add: lamp_def)
  from main_unknown_domain [OF h1 h2 h3] h1 h2 h3 show ?thesis
    by blast
qed

section \<open>Shutdown\<close>

lemma publishAvailability_calls:
  "fst (publishAvailability w es v) = publishAvailability_calls es v"
  by (induction es)
     (simp_all add: publishAvailability_def publishAvailability_calls_def promiseAll_def call_def)

lemma publishAvailability_resolves:
  "(case snd (publishAvailability w es v) of Inl err \<Rightarrow> False | Inr us \<Rightarrow> True) =
     list_all (\<lambda>entity. isOK (publishAsync w (getTopic entity AVAILABILITY) (Text v) False)) es"
  by (induction es)
     (auto simp: publishAvailability_def promiseAll_def call_def external_def isOK_def
       split: sum.splits)

text \<open>
  C7, as stated, fails: \<open>shutdownHandler\<close> has no \<open>try\<close>, so a rejected offline publish
  rejects the whole execution. The broker is never disconnected and the process does not
  exit.
\<close>

theorem shutdown_counterexample:
  "trace (shutdownHandler (publishFails [frontDoor]) [frontDoor] SIGTERM) =
     [Log Info ''jema2mqtt: shutdown'',
      ClearInterval,
      PublishAsync ''jema2mqtt/front-door/availability'' (Text ''offline'') False]
   \<and> handlers (shutdownHandler (publishFails [frontDoor]) [frontDoor] SIGTERM)
       = [Rejected (Failure ''not connected'')]
   \<and> \<not> exited (shutdownHandler (publishFails [frontDoor]) [frontDoor] SIGTERM)"
  by (simp add: shutdownHandler_def run_def step_def ready_def shutdownHandler_start_def
      publishAvailability_calls_def publishAvailability_def promiseAll_def call_def external_def
      publishFails_def healthy_def getTopic_def frontDoor_def)

text \<open>
  C7, amended. One execution of the shutdown sequence makes these calls, in this order:
  the heartbeat timer is cleared; \<open>offline\<close> is published to the availability topic of
  every configured entity; then, only if all of these publishes succeeded, the broker
  connection is ended; then, only if that succeeded, the closing is logged and the
  process exits with code 0. A failed step ends the execution: the steps after it do not
  run. The offline publishes are always all issued, and before the connection is ended.
\<close>

theorem shutdown_sequence:
  "trace (shutdownHandler w es s) =
     [Log Info ''jema2mqtt: shutdown'', ClearInterval]
     @ map (\<lambda>entity. PublishAsync (getTopic entity AVAILABILITY) (Text ''offline'') False) es
     @ (if list_all (\<lambda>entity. isOK (publishAsync w (getTopic entity AVAILABILITY) (Text ''offline'') False)) es
        then EndAsync #
          (if isOK (endAsync w) then [Log Info ''mqtt-client: closed'', Exit 0] else [])
        else [])
   \<and> exited (shutdownHandler w es s) =
       (list_all (\<lambda>entity. isOK (publishAsync w (getTopic entity AVAILABILITY) (Text ''offline'') False)) es
        \<and> isOK (endAsync w))"
proof (cases "snd (publishAvailability w es ''offline'')")
  case (Inl err)
  with publishAvailability_resolves [of w es "''offline''"]
  have "\<not> list_all (\<lambda>entity. isOK (publishAsync w (getTopic entity AVAILABILITY) (Text ''offline'') False)) es"
    by simp
  with Inl show ?thesis
    by (simp add: shutdownHandler_def run_def step_def ready_def shutdownHandler_start_def
        publishAvailability_calls_def)
next
  case (Inr us)
  with publishAvailability_resolves [of w es "''offline''"]
  have "list_all (\<lambda>entity. isOK (publishAsync w (getTopic entity AVAILABILITY) (Text ''offline'') False)) es"
    by simp
  with Inr show ?thesis
    by (cases "endAsync w")
       (simp_all add: shutdownHandler_def run_def step_def ready_def shutdownHandler_start_def
        publishAvailability_calls_def external_def isOK_def)
qed

section \<open>Signals\<close>

lemma starts_append:
  "starts (t @ t') = starts t + starts t'"
  by (simp add: starts_def)

lemma starts_shutdownHandler_start:
  "starts (shutdownHandler_start es) = 1"
  by (simp add: starts_def shutdownHandler_start_def publishAvailability_calls_def
      filter_map comp_def)

lemma starts_shutdownHandler_resume:
  "starts (fst (shutdownHandler_resume w es at)) = 0"
  by (cases at) (simp_all add: starts_def external_def split: sum.splits)

lemma step_exited:
  "exited p \<Longrightarrow> step w es p inp = p"
  by (simp add: step_def)

lemma step_counts:
  assumes "\<not> exited p"
  shows "starts (trace (step w es p inp)) = starts (trace p) + (if isSignal inp then 1 else 0)
    \<and> length (handlers (step w es p inp)) = length (handlers p) + (if isSignal inp then 1 else 0)"
  using assms
  by (cases inp)
     (auto simp: step_def starts_append starts_shutdownHandler_start
        starts_shutdownHandler_resume [simplified]
        split: task.splits prod.splits dest: arg_cong [where f = "\<lambda>r. starts (fst r)"])

lemma run_snoc:
  "run w es p (inps @ [inp]) = step w es (run w es p inps) inp"
  by (simp add: run_def)

lemma run_counts:
  assumes "\<not> exited (run w es ready inps)"
  shows "starts (trace (run w es ready inps)) = length (filter isSignal inps)
    \<and> length (handlers (run w es ready inps)) = length (filter isSignal inps)"
  using assms
proof (induction inps rule: rev_induct)
  case Nil
  then show ?case
    by (simp add: run_def ready_def starts_def)
next
  case (snoc inp inps)
  from snoc.prems have live: "\<not> exited (run w es ready inps)"
    by (auto simp: run_snoc step_exited)
  from snoc.IH [OF live] step_counts [OF live, of w es inp] show ?case
    by (simp add: run_snoc)
qed

text \<open>
  C8, as stated, fails: the signal handlers call \<open>shutdownHandler\<close> with no guard. A
  second signal that arrives while the first execution waits for its offline publishes
  starts a second execution: the timer is cleared and \<open>offline\<close> is published again.
\<close>

theorem second_signal_counterexample:
  "trace (run (healthy [frontDoor] True) [frontDoor] ready [Signal SIGINT, Signal SIGTERM]) =
     [Log Info ''jema2mqtt: shutdown'',
      ClearInterval,
      PublishAsync ''jema2mqtt/front-door/availability'' (Text ''offline'') False,
      Log Info ''jema2mqtt: shutdown'',
      ClearInterval,
      PublishAsync ''jema2mqtt/front-door/availability'' (Text ''offline'') False]
   \<and> handlers (run (healthy [frontDoor] True) [frontDoor] ready [Signal SIGINT, Signal SIGTERM])
       = [Suspended AwaitOffline, Suspended AwaitOffline]"
  by (simp add: run_def step_def ready_def shutdownHandler_start_def
      publishAvailability_calls_def getTopic_def frontDoor_def)

text \<open>
  C8, amended. Every termination signal (\<open>SIGINT\<close> or \<open>SIGTERM\<close>) received before the
  process has exited starts one more execution of the shutdown sequence, also while an
  earlier execution is in progress: as long as the process has not exited, the number of
  executions started is the number of signals received.
\<close>

theorem signals_start_shutdown:
  assumes "\<not> exited (run w es ready inps)"
  shows "starts (trace (run w es ready inps)) = length (filter isSignal inps)
    \<and> length (handlers (run w es ready inps)) = length (filter isSignal inps)"
  using assms by (rule run_counts)

theorem signals_start_shutdown_witness:
  "\<not> exited (run (healthy [frontDoor] True) [frontDoor] ready
        [Signal SIGINT, Resume 0, Signal SIGTERM, Signal SIGINT])
   \<and> starts (trace (run (healthy [frontDoor] True) [frontDoor] ready
        [Signal SIGINT, Resume 0, Signal SIGTERM, Signal SIGINT])) = 3"
proof -
  have h: "\<not> exited (run (healthy [frontDoor] True) [frontDoor] ready
        [Signal SIGINT, Resume 0, Signal SIGTERM, Signal SIGINT])"
    by (simp add: run_def step_def ready_def publishAvailability_def promiseAll_def call_def
        external_def healthy_def)
  from signals_start_shutdown [OF h, THEN conjunct1] h show ?thesis
    by simp
qed

end
